theory Spec2Isabelle
  imports Main "HOL-Library.Word"
begin

unbundle bit_operations_syntax

section \<open>The MCP7940 real-time-clock driver\<close>

text \<open>
  A shallow embedding of \<^verbatim>\<open>src/mcp7940.c\<close> and of the register map of
  \<^verbatim>\<open>src/mcp7940.h\<close>. An \<^verbatim>\<open>unsigned char\<close> is an 8-bit word. C
  promotes the operands of \<^verbatim>\<open>+\<close>, \<^verbatim>\<open>-\<close>, \<^verbatim>\<open>*\<close>,
  \<^verbatim>\<open>/\<close>, \<^verbatim>\<open>%\<close> and \<^verbatim>\<open><<\<close> to \<^verbatim>\<open>int\<close>
  and converts the result back to \<^verbatim>\<open>unsigned char\<close> where it is assigned,
  passed or returned; those expressions are computed on \<open>int\<close> and brought back with
  \<open>word_of_int\<close>, which reduces modulo 256 (no intermediate value leaves -1..405, far
  inside a 16-bit \<^verbatim>\<open>int\<close>). Bytewise \<^verbatim>\<open>&\<close>, \<^verbatim>\<open>|\<close>,
  \<^verbatim>\<open>~\<close> and \<^verbatim>\<open>>>\<close> of bytes cannot leave the byte and are written
  on the word.

  Embedded are the functions the properties below are about, with everything they call:
  the weekday label lookup, register write and read, the BCD codec, oscillator trim and
  start, reading time and date, the leap-year query, and setting weekday, time and date.
  \<^verbatim>\<open>mcp7940_init\<close>, \<^verbatim>\<open>mcp7940_battery\<close>,
  \<^verbatim>\<open>mcp7940_status\<close>, \<^verbatim>\<open>mcp7940_mfp_output\<close>,
  \<^verbatim>\<open>mcp7940_weekday\<close>, \<^verbatim>\<open>mcp7940_datetime\<close> and
  \<^verbatim>\<open>mcp7940_setdatetime\<close> are left out.
\<close>

type_synonym u8 = "8 word"

subsection \<open>The bus as the driver sees it\<close>

text \<open>
  The TWI primitives and the delay routine are not part of the repository (the header
  includes them from \<^verbatim>\<open>hal/.../twi/twi.h\<close> and
  \<^verbatim>\<open>utils/systick/systick.h\<close>). Each call is recorded as one event of a bus
  history, in call order. The byte that \<^verbatim>\<open>twi_get\<close> stores is the device's
  answer to the history so far: the device is a parameter \<open>dev\<close> of every function
  that reads, and nothing is assumed about it.
\<close>

datatype twi_direction = TWI_WRITE | TWI_READ

datatype twi_acknowledge = TWI_ACK | TWI_NACK

datatype twi_event =
    Start
  | Address u8 twi_direction
  | Set u8
  | Get twi_acknowledge
  | Stop
  | Wait nat

type_synonym bus = "twi_event list"

type_synonym twi_device = "bus \<Rightarrow> u8"

definition twi_start :: "bus \<Rightarrow> bus" where
  "twi_start s = s @ [Start]"

definition twi_address :: "u8 \<Rightarrow> twi_direction \<Rightarrow> bus \<Rightarrow> bus" where
  "twi_address a d s = s @ [Address a d]"

definition twi_set :: "u8 \<Rightarrow> bus \<Rightarrow> bus" where
  "twi_set b s = s @ [Set b]"

definition twi_get :: "twi_device \<Rightarrow> twi_acknowledge \<Rightarrow> bus \<Rightarrow> u8 \<times> bus" where
  "twi_get dev ack s = (dev s, s @ [Get ack])"

definition twi_stop :: "bus \<Rightarrow> bus" where
  "twi_stop s = s @ [Stop]"

definition systick_timer_wait_ms :: "nat \<Rightarrow> bus \<Rightarrow> bus" where
  "systick_timer_wait_ms ms s = s @ [Wait ms]"

subsection \<open>Configuration and register map (mcp7940.h)\<close>

definition MCP7940_ADDRESS :: u8 where "MCP7940_ADDRESS = 0x6F"
definition MCP7940_IO_TIMEOUT_MS :: nat where "MCP7940_IO_TIMEOUT_MS = 1"

definition MCP7940_RTCSEC :: u8 where "MCP7940_RTCSEC = 0x00"
definition MCP7940_ST_bm :: u8 where "MCP7940_ST_bm = 0x80"
definition MCP7940_SECTEN_bm :: u8 where "MCP7940_SECTEN_bm = 0x70"
definition MCP7940_RTCMIN :: u8 where "MCP7940_RTCMIN = 0x01"
definition MCP7940_MINTEN_bm :: u8 where "MCP7940_MINTEN_bm = 0x70"
definition MCP7940_RTCHOUR :: u8 where "MCP7940_RTCHOUR = 0x02"
definition MCP7940_HRTEN_bm :: u8 where "MCP7940_HRTEN_bm = 0x30"
definition MCP7940_RTCWKDAY :: u8 where "MCP7940_RTCWKDAY = 0x03"
definition MCP7940_OSCRUN_bm :: u8 where "MCP7940_OSCRUN_bm = 0x20"
definition MCP7940_PWRFAIL_bm :: u8 where "MCP7940_PWRFAIL_bm = 0x10"
definition MCP7940_VBATEN_bm :: u8 where "MCP7940_VBATEN_bm = 0x08"
definition MCP7940_RTCDATE :: u8 where "MCP7940_RTCDATE = 0x04"
definition MCP7940_DATETEN_bm :: u8 where "MCP7940_DATETEN_bm = 0x30"
definition MCP7940_RTCMTH :: u8 where "MCP7940_RTCMTH = 0x05"
definition MCP7940_LPYR_bm :: u8 where "MCP7940_LPYR_bm = 0x20"
definition MCP7940_MTHTEN_bm :: u8 where "MCP7940_MTHTEN_bm = 0x10"
definition MCP7940_LPYR_bp :: nat where "MCP7940_LPYR_bp = 5"
definition MCP7940_RTCYEAR :: u8 where "MCP7940_RTCYEAR = 0x06"
definition MCP7940_YRTEN_bm :: u8 where "MCP7940_YRTEN_bm = 0xF0"
definition MCP7940_CONTROL :: u8 where "MCP7940_CONTROL = 0x07"
definition MCP7940_EXTOSC_bm :: u8 where "MCP7940_EXTOSC_bm = 0x08"
definition MCP7940_OSCTRIM :: u8 where "MCP7940_OSCTRIM = 0x08"
definition MCP7940_PWRDNMIN :: u8 where "MCP7940_PWRDNMIN = 0x18"
definition MCP7940_PWRUPMIN :: u8 where "MCP7940_PWRUPMIN = 0x1C"
definition MCP7940_PWRDNHOUR :: u8 where "MCP7940_PWRDNHOUR = 0x19"
definition MCP7940_PWRUPHOUR :: u8 where "MCP7940_PWRUPHOUR = 0x1D"
definition MCP7940_PWRDNDATE :: u8 where "MCP7940_PWRDNDATE = 0x1A"
definition MCP7940_PWRUPDATE :: u8 where "MCP7940_PWRUPDATE = 0x1E"
definition MCP7940_PWRDNMTH :: u8 where "MCP7940_PWRDNMTH = 0x1B"
definition MCP7940_PWRUPMTH :: u8 where "MCP7940_PWRUPMTH = 0x1F"

datatype MCP7940_Error = MCP7940_Error_None | MCP7940_Error_Fail

datatype MCP7940_Mode = MCP7940_Mode_Disable | MCP7940_Mode_Enable

datatype MCP7940_Trim = MCP7940_Trim_Substract | MCP7940_Trim_Add

datatype MCP7940_Register =
    MCP7940_Register_Current_Time
  | MCP7940_Register_Power_Down_Time
  | MCP7940_Register_Power_Up_Time

text \<open>
  \<^verbatim>\<open>mcp7940_leapyear\<close> returns a computed integer as its enumeration, with no
  range check, so \<^verbatim>\<open>MCP7940_LeapYear\<close> is the integer and its two enumerators are
  the numbers the header gives them.
\<close>

type_synonym MCP7940_LeapYear = int

definition MCP7940_LeapYear_False :: MCP7940_LeapYear where "MCP7940_LeapYear_False = 0"
definition MCP7940_LeapYear_True :: MCP7940_LeapYear where "MCP7940_LeapYear_True = 1"

subsection \<open>Weekday labels\<close>

definition weeksdays :: "string list" where
  "weeksdays = [''MON'', ''TUE'', ''WED'', ''THU'', ''FRI'', ''SAT'', ''SUN'', ''???'']"

text \<open>
  The index expression \<^verbatim>\<open>0x07 & (day - 1)\<close> is computed on \<^verbatim>\<open>int\<close>
  (\<open>day - 1\<close> is -1 for \<open>day = 0\<close>).
\<close>

definition weekday_index :: "u8 \<Rightarrow> int" where
  "weekday_index day = 0x07 AND (uint day - 1)"

text \<open>
  Indexing the table outside its rows is undefined behaviour in C; the model returns
  \<open>None\<close> there, and \<open>Some\<close> of the row otherwise.
\<close>

definition mcp7940_weekday_string :: "u8 \<Rightarrow> string option" where
  "mcp7940_weekday_string day =
     (let i = weekday_index day
      in if 0 \<le> i \<and> nat i < length weeksdays then Some (weeksdays ! nat i) else None)"

text \<open>
  Modelled from the spec: \<^verbatim>\<open>FORMAT_Time\<close> and \<^verbatim>\<open>FORMAT_Date\<close> are
  declared in \<^verbatim>\<open>shared/format/time.h\<close>, which is not in the repository. The
  source reads and writes the fields \<^verbatim>\<open>hour\<close>, \<^verbatim>\<open>minute\<close>,
  \<^verbatim>\<open>second\<close>, \<^verbatim>\<open>day\<close>, \<^verbatim>\<open>month\<close>, \<^verbatim>\<open>year\<close>
  as \<^verbatim>\<open>unsigned char\<close> values; the spec's data model gives them the ranges of
  binary magnitudes. \<^verbatim>\<open>validate_time\<close> and \<^verbatim>\<open>validate_date\<close>
  (\<^verbatim>\<open>utils/time/validate.h\<close>) are parameters of the functions that call them;
  their result type has the value \<^verbatim>\<open>RETURN_Valid\<close> the source compares with.
\<close>

record FORMAT_Time =
  hour :: u8
  minute :: u8
  second :: u8

record FORMAT_Date =
  day :: u8
  month :: u8
  year :: u8

datatype RETURN_Status = RETURN_Valid | RETURN_Invalid

subsection \<open>Register access\<close>

definition mcp7940_write :: "u8 \<Rightarrow> u8 \<Rightarrow> bus \<Rightarrow> bus" where
  "mcp7940_write address data s =
     (let s1 = twi_start s;
          s2 = twi_address MCP7940_ADDRESS TWI_WRITE s1;
          s3 = twi_set address s2;
          s4 = twi_set data s3;
          s5 = twi_stop s4
      in systick_timer_wait_ms MCP7940_IO_TIMEOUT_MS s5)"

definition mcp7940_read :: "twi_device \<Rightarrow> u8 \<Rightarrow> bus \<Rightarrow> u8 \<times> bus" where
  "mcp7940_read dev address s =
     (let s1 = twi_start s;
          s2 = twi_address MCP7940_ADDRESS TWI_WRITE s1;
          s3 = twi_set address s2;
          s4 = twi_address MCP7940_ADDRESS TWI_READ s3;
          (temp, s5) = twi_get dev TWI_NACK s4;
          s6 = twi_stop s5;
          s7 = systick_timer_wait_ms MCP7940_IO_TIMEOUT_MS s6
      in (temp, s7))"

definition mcp7940_tobinary :: "u8 \<Rightarrow> u8 \<Rightarrow> u8" where
  "mcp7940_tobinary value msk =
     word_of_int (drop_bit 4 (uint (msk AND value)) * 10 + uint (0x0F AND value))"

definition mcp7940_data :: "twi_device \<Rightarrow> u8 \<Rightarrow> u8 \<Rightarrow> bus \<Rightarrow> u8 \<times> bus" where
  "mcp7940_data dev address msk s =
     (let (raw, s1) = mcp7940_read dev address s in (mcp7940_tobinary raw msk, s1))"

subsection \<open>Oscillator trim and start\<close>

definition mcp7940_trimming ::
  "twi_device \<Rightarrow> MCP7940_Trim \<Rightarrow> u8 \<Rightarrow> bus \<Rightarrow> MCP7940_Error \<times> bus" where
  "mcp7940_trimming dev mode value s =
     (let value1 = value AND 0x7F;
          value2 = (if mode = MCP7940_Trim_Add then value1 OR 0x80 else value1);
          s1 = mcp7940_write MCP7940_OSCTRIM value2 s;
          (readback, s2) = mcp7940_read dev MCP7940_OSCTRIM s1
      in if readback = value2 then (MCP7940_Error_None, s2) else (MCP7940_Error_Fail, s2))"

text \<open>
  \<^verbatim>\<open>MCP7940_USE_EXTOSC\<close> is a build switch (undefined by default); it is the
  first argument.
\<close>

definition mcp7940_oscillator :: "bool \<Rightarrow> twi_device \<Rightarrow> MCP7940_Mode \<Rightarrow> bus \<Rightarrow> bus" where
  "mcp7940_oscillator use_extosc dev mode s =
     (if use_extosc then
        (let (temp, s1) = mcp7940_read dev MCP7940_CONTROL s
         in if mode = MCP7940_Mode_Enable
            then mcp7940_write MCP7940_CONTROL (MCP7940_EXTOSC_bm OR temp) s1
            else mcp7940_write MCP7940_CONTROL ((NOT MCP7940_EXTOSC_bm) AND temp) s1)
      else
        (let (temp, s1) = mcp7940_read dev MCP7940_RTCSEC s
         in if mode = MCP7940_Mode_Enable
            then mcp7940_write MCP7940_RTCSEC (MCP7940_ST_bm OR temp) s1
            else mcp7940_write MCP7940_RTCSEC ((NOT MCP7940_ST_bm) AND temp) s1))"

subsection \<open>Reading time and date\<close>

definition mcp7940_hour :: "twi_device \<Rightarrow> MCP7940_Register \<Rightarrow> bus \<Rightarrow> u8 \<times> bus" where
  "mcp7940_hour dev data s =
     (let temp = (case data of
                    MCP7940_Register_Power_Down_Time \<Rightarrow> MCP7940_PWRDNHOUR
                  | MCP7940_Register_Power_Up_Time \<Rightarrow> MCP7940_PWRUPHOUR
                  | MCP7940_Register_Current_Time \<Rightarrow> MCP7940_RTCHOUR)
      in mcp7940_data dev temp MCP7940_HRTEN_bm s)"

definition mcp7940_minute :: "twi_device \<Rightarrow> MCP7940_Register \<Rightarrow> bus \<Rightarrow> u8 \<times> bus" where
  "mcp7940_minute dev data s =
     (let temp = (case data of
                    MCP7940_Register_Power_Down_Time \<Rightarrow> MCP7940_PWRDNMIN
                  | MCP7940_Register_Power_Up_Time \<Rightarrow> MCP7940_PWRUPMIN
                  | MCP7940_Register_Current_Time \<Rightarrow> MCP7940_RTCMIN)
      in mcp7940_data dev temp MCP7940_MINTEN_bm s)"

definition mcp7940_second :: "twi_device \<Rightarrow> bus \<Rightarrow> u8 \<times> bus" where
  "mcp7940_second dev s = mcp7940_data dev MCP7940_RTCSEC MCP7940_SECTEN_bm s"

definition mcp7940_day :: "twi_device \<Rightarrow> MCP7940_Register \<Rightarrow> bus \<Rightarrow> u8 \<times> bus" where
  "mcp7940_day dev data s =
     (let temp = (case data of
                    MCP7940_Register_Power_Down_Time \<Rightarrow> MCP7940_PWRDNDATE
                  | MCP7940_Register_Power_Up_Time \<Rightarrow> MCP7940_PWRUPDATE
                  | MCP7940_Register_Current_Time \<Rightarrow> MCP7940_RTCDATE)
      in mcp7940_data dev temp MCP7940_DATETEN_bm s)"

definition mcp7940_month :: "twi_device \<Rightarrow> MCP7940_Register \<Rightarrow> bus \<Rightarrow> u8 \<times> bus" where
  "mcp7940_month dev data s =
     (let temp = (case data of
                    MCP7940_Register_Power_Down_Time \<Rightarrow> MCP7940_PWRDNMTH
                  | MCP7940_Register_Power_Up_Time \<Rightarrow> MCP7940_PWRUPMTH
                  | MCP7940_Register_Current_Time \<Rightarrow> MCP7940_RTCMTH)
      in mcp7940_data dev temp MCP7940_MTHTEN_bm s)"

definition mcp7940_year :: "twi_device \<Rightarrow> bus \<Rightarrow> u8 \<times> bus" where
  "mcp7940_year dev s = mcp7940_data dev MCP7940_RTCYEAR MCP7940_YRTEN_bm s"

text \<open>
  \<^verbatim>\<open>mcp7940_time\<close> and \<^verbatim>\<open>mcp7940_date\<close> fill the structure their
  pointer argument addresses: the structure is passed in and returned updated.
\<close>

definition mcp7940_time ::
  "twi_device \<Rightarrow> FORMAT_Time \<Rightarrow> MCP7940_Register \<Rightarrow> bus \<Rightarrow> FORMAT_Time \<times> bus" where
  "mcp7940_time dev time reg s =
     (let (h, s1) = mcp7940_hour dev reg s;
          time1 = time\<lparr>hour := h\<rparr>;
          (m, s2) = mcp7940_minute dev reg s1;
          time2 = time1\<lparr>minute := m\<rparr>
      in if reg = MCP7940_Register_Current_Time
         then (let (sec, s3) = mcp7940_second dev s2 in (time2\<lparr>second := sec\<rparr>, s3))
         else (time2\<lparr>second := 0\<rparr>, s2))"

definition mcp7940_date ::
  "twi_device \<Rightarrow> FORMAT_Date \<Rightarrow> MCP7940_Register \<Rightarrow> bus \<Rightarrow> FORMAT_Date \<times> bus" where
  "mcp7940_date dev date reg s =
     (let (d, s1) = mcp7940_day dev reg s;
          date1 = date\<lparr>day := d\<rparr>;
          (m, s2) = mcp7940_month dev reg s1;
          date2 = date1\<lparr>month := m\<rparr>
      in if reg = MCP7940_Register_Current_Time
         then (let (y, s3) = mcp7940_year dev s2 in (date2\<lparr>year := y\<rparr>, s3))
         else (date2\<lparr>year := 0\<rparr>, s2))"

definition mcp7940_leapyear :: "twi_device \<Rightarrow> bus \<Rightarrow> MCP7940_LeapYear \<times> bus" where
  "mcp7940_leapyear dev s =
     (let (raw, s1) = mcp7940_read dev MCP7940_LPYR_bm s
      in (uint (drop_bit MCP7940_LPYR_bp (0x07 AND raw)), s1))"

subsection \<open>Writing weekday, time and date\<close>

definition mcp7940_setweekday :: "twi_device \<Rightarrow> u8 \<Rightarrow> bus \<Rightarrow> MCP7940_Error \<times> bus" where
  "mcp7940_setweekday dev weekday s =
     (if weekday \<ge> 7 then (MCP7940_Error_Fail, s)
      else
        (let (temp, s1) = mcp7940_read dev MCP7940_RTCWKDAY s;
             s2 = mcp7940_write MCP7940_RTCWKDAY
                    (word_of_int (uint (0xF8 AND temp) OR (0x07 AND (uint weekday + 1)))) s1
         in (MCP7940_Error_None, s2)))"

definition mcp7940_tobcd :: "u8 \<Rightarrow> u8" where
  "mcp7940_tobcd value = word_of_int (push_bit 4 (uint value div 10) OR (uint value mod 10))"

definition mcp7940_setdata :: "u8 \<Rightarrow> u8 \<Rightarrow> u8 \<Rightarrow> u8 \<Rightarrow> u8 \<Rightarrow> u8 \<Rightarrow> bus \<Rightarrow> bus" where
  "mcp7940_setdata address1 value1 address2 value2 address3 value3 s =
     (let s1 = mcp7940_write address1 (mcp7940_tobcd value1) s;
          s2 = mcp7940_write address2 (mcp7940_tobcd value2) s1
      in mcp7940_write address3 (mcp7940_tobcd value3) s2)"

definition mcp7940_settime ::
  "bool \<Rightarrow> twi_device \<Rightarrow> (FORMAT_Time \<Rightarrow> RETURN_Status) \<Rightarrow> FORMAT_Time \<Rightarrow> bus
     \<Rightarrow> MCP7940_Error \<times> bus" where
  "mcp7940_settime use_extosc dev validate_time time s =
     (if validate_time time \<noteq> RETURN_Valid then (MCP7940_Error_Fail, s)
      else
        (let s1 = mcp7940_setdata MCP7940_RTCHOUR (hour time)
                                  MCP7940_RTCMIN (minute time)
                                  MCP7940_RTCSEC (second time) s;
             s2 = mcp7940_oscillator use_extosc dev MCP7940_Mode_Enable s1
         in (MCP7940_Error_None, s2)))"

definition mcp7940_setdate ::
  "(FORMAT_Date \<Rightarrow> RETURN_Status) \<Rightarrow> FORMAT_Date \<Rightarrow> bus \<Rightarrow> MCP7940_Error \<times> bus" where
  "mcp7940_setdate validate_date date s =
     (if validate_date date \<noteq> RETURN_Valid then (MCP7940_Error_Fail, s)
      else
        (let s1 = mcp7940_setdata MCP7940_RTCDATE (day date)
                                  MCP7940_RTCMTH (month date)
                                  MCP7940_RTCYEAR (year date) s
         in (MCP7940_Error_None, s1)))"

subsection \<open>Bus frames\<close>

text \<open>
  The events one call of \<^verbatim>\<open>mcp7940_write\<close> and one call of
  \<^verbatim>\<open>mcp7940_read\<close> put on the bus. \<open>read_request\<close> is the part of a read
  that precedes \<^verbatim>\<open>twi_get\<close>: the device answers with the history up to it.
\<close>

definition write_frame :: "u8 \<Rightarrow> u8 \<Rightarrow> bus" where
  "write_frame address data =
     [Start, Address MCP7940_ADDRESS TWI_WRITE, Set address, Set data, Stop,
      Wait MCP7940_IO_TIMEOUT_MS]"

definition read_request :: "u8 \<Rightarrow> bus" where
  "read_request address =
     [Start, Address MCP7940_ADDRESS TWI_WRITE, Set address, Address MCP7940_ADDRESS TWI_READ]"

definition read_frame :: "u8 \<Rightarrow> bus" where
  "read_frame address = read_request address @ [Get TWI_NACK, Stop, Wait MCP7940_IO_TIMEOUT_MS]"

subsection \<open>A simulated device\<close>

text \<open>
  A test double for the chip, used where a statement needs a concrete device: a register
  file with an address pointer. After an address byte in write direction the next data
  byte loads the pointer; further data bytes are stored at the pointer, which advances;
  a byte read is the register at the pointer. \<open>simulated_device init\<close> answers a bus
  history with the register a chip started with contents \<open>init\<close> would return, and
  \<open>registers_after init s\<close> is the register file such a chip holds after the history.
\<close>

record chip =
  cells :: "u8 \<Rightarrow> u8"
  pointer :: u8
  awaiting_pointer :: bool

fun chip_step :: "chip \<Rightarrow> twi_event \<Rightarrow> chip" where
  "chip_step c Start = c"
| "chip_step c (Address a TWI_WRITE) = c\<lparr>awaiting_pointer := True\<rparr>"
| "chip_step c (Address a TWI_READ) = c\<lparr>awaiting_pointer := False\<rparr>"
| "chip_step c (Set b) =
     (if awaiting_pointer c then c\<lparr>pointer := b, awaiting_pointer := False\<rparr>
      else c\<lparr>cells := (cells c)(pointer c := b), pointer := pointer c + 1\<rparr>)"
| "chip_step c (Get ack) = c\<lparr>pointer := pointer c + 1\<rparr>"
| "chip_step c Stop = c"
| "chip_step c (Wait ms) = c"

definition chip_run :: "(u8 \<Rightarrow> u8) \<Rightarrow> bus \<Rightarrow> chip" where
  "chip_run init s = foldl chip_step \<lparr>cells = init, pointer = 0, awaiting_pointer = False\<rparr> s"

definition registers_after :: "(u8 \<Rightarrow> u8) \<Rightarrow> bus \<Rightarrow> u8 \<Rightarrow> u8" where
  "registers_after init s = cells (chip_run init s)"

definition simulated_device :: "(u8 \<Rightarrow> u8) \<Rightarrow> twi_device" where
  "simulated_device init s = (let c = chip_run init s in cells c (pointer c))"

text \<open>
  Modelled from the spec: \<^verbatim>\<open>validate_time\<close> and \<^verbatim>\<open>validate_date\<close>
  are declared in \<^verbatim>\<open>utils/time/validate.h\<close>, which is not in the repository.
  These two accept exactly the ranges of the spec's data model (hour 0..23, minute and
  second 0..59; day 1..31, month 1..12, year 0..99) and serve as the concrete validators
  of the examples below; the theorems hold for every validator.
\<close>

definition validate_time_range :: "FORMAT_Time \<Rightarrow> RETURN_Status" where
  "validate_time_range t =
     (if hour t \<le> 23 \<and> minute t \<le> 59 \<and> second t \<le> 59 then RETURN_Valid else RETURN_Invalid)"

definition validate_date_range :: "FORMAT_Date \<Rightarrow> RETURN_Status" where
  "validate_date_range d =
     (if 1 \<le> day d \<and> day d \<le> 31 \<and> 1 \<le> month d \<and> month d \<le> 12 \<and> year d \<le> 99
      then RETURN_Valid else RETURN_Invalid)"

text \<open>
  Two concrete environments for the examples: a chip whose registers are all zero, and a
  bus on which nothing answers, so every byte read is \<open>0xFF\<close>.
\<close>

definition blank_registers :: "u8 \<Rightarrow> u8" where
  "blank_registers = (\<lambda>a. 0)"

definition absent_device :: twi_device where
  "absent_device = (\<lambda>s. 0xFF)"

section \<open>Properties\<close>

lemmas MCP7940_register_map =
  MCP7940_ADDRESS_def MCP7940_IO_TIMEOUT_MS_def
  MCP7940_RTCSEC_def MCP7940_ST_bm_def MCP7940_SECTEN_bm_def
  MCP7940_RTCMIN_def MCP7940_MINTEN_bm_def MCP7940_RTCHOUR_def MCP7940_HRTEN_bm_def
  MCP7940_RTCWKDAY_def MCP7940_OSCRUN_bm_def MCP7940_PWRFAIL_bm_def MCP7940_VBATEN_bm_def
  MCP7940_RTCDATE_def MCP7940_DATETEN_bm_def MCP7940_RTCMTH_def MCP7940_LPYR_bm_def
  MCP7940_MTHTEN_bm_def MCP7940_LPYR_bp_def MCP7940_RTCYEAR_def MCP7940_YRTEN_bm_def
  MCP7940_CONTROL_def MCP7940_EXTOSC_bm_def MCP7940_OSCTRIM_def
  MCP7940_PWRDNMIN_def MCP7940_PWRUPMIN_def MCP7940_PWRDNHOUR_def MCP7940_PWRUPHOUR_def
  MCP7940_PWRDNDATE_def MCP7940_PWRUPDATE_def MCP7940_PWRDNMTH_def MCP7940_PWRUPMTH_def

subsection \<open>What a register access puts on the bus\<close>

lemma mcp7940_write_trace: "mcp7940_write a d s = s @ write_frame a d"
  by (simp add: mcp7940_write_def write_frame_def twi_start_def twi_address_def twi_set_def
      twi_stop_def systick_timer_wait_ms_def)

lemma mcp7940_read_trace:
  "mcp7940_read dev a s = (dev (s @ read_request a), s @ read_frame a)"
  by (simp add: mcp7940_read_def read_frame_def read_request_def twi_start_def twi_address_def
      twi_set_def twi_get_def twi_stop_def systick_timer_wait_ms_def)

lemma mcp7940_data_trace:
  "mcp7940_data dev a m s = (mcp7940_tobinary (dev (s @ read_request a)) m, s @ read_frame a)"
  by (simp add: mcp7940_data_def mcp7940_read_trace)

lemma mcp7940_setdata_trace:
  "mcp7940_setdata a1 v1 a2 v2 a3 v3 s =
     s @ write_frame a1 (mcp7940_tobcd v1) @ write_frame a2 (mcp7940_tobcd v2)
       @ write_frame a3 (mcp7940_tobcd v3)"
  by (simp add: mcp7940_setdata_def mcp7940_write_trace)

subsection \<open>The simulated device under whole frames\<close>

lemma chip_run_append:
  "chip_run init (s @ t) = foldl chip_step (chip_run init s) t"
  by (simp add: chip_run_def)

lemma chip_write_frame:
  "foldl chip_step c (write_frame a d) =
     c\<lparr>cells := (cells c)(a := d), pointer := a + 1, awaiting_pointer := False\<rparr>"
  by (simp add: write_frame_def)

lemma chip_read_request:
  "foldl chip_step c (read_request a) = c\<lparr>pointer := a, awaiting_pointer := False\<rparr>"
  by (simp add: read_request_def)

lemma chip_read_frame:
  "foldl chip_step c (read_frame a) = c\<lparr>pointer := a + 1, awaiting_pointer := False\<rparr>"
  by (simp add: read_frame_def chip_read_request)

lemma simulated_read:
  "simulated_device init (s @ read_request a) = registers_after init s a"
  by (simp add: simulated_device_def registers_after_def chip_run_append chip_read_request)

lemma registers_after_write:
  "registers_after init (s @ write_frame a d) = (registers_after init s)(a := d)"
  by (simp add: registers_after_def chip_run_append chip_write_frame)

lemma registers_after_read:
  "registers_after init (s @ read_frame a) = registers_after init s"
  by (simp add: registers_after_def chip_run_append chip_read_frame)

lemma registers_after_Nil: "registers_after init [] = init"
  by (simp add: registers_after_def chip_run_def)

subsection \<open>Bits of a byte\<close>

lemma small_bits:
  assumes "(x::u8) < 2 ^ n" and "bit x k" shows "k < n"
proof -
  have "take_bit n x = x" using assms(1)
    by (simp add: take_bit_eq_mod mod_word_less)
  then have "bit (take_bit n x) k" using assms(2) by simp
  then show ?thesis by (simp add: bit_take_bit_iff)
qed

lemma nibble_bits: "(x::u8) < 16 \<Longrightarrow> bit x k \<Longrightarrow> k < 4"
  using small_bits [of x 4 k] by simp

lemma fifteen_mask: "(15::u8) = mask 4"
  by (simp add: mask_eq_exp_minus_1)

lemma seven_mask: "(7::u8) = mask 3" by (simp add: mask_eq_exp_minus_1)

lemma f8_mask: "(0xF8::u8) = NOT (mask 3)" by (simp add: mask_eq_exp_minus_1)

lemma low_nibble: "(u::u8) < 16 \<Longrightarrow> 0x0F AND (push_bit 4 t OR u) = u"
  unfolding fifteen_mask
  by (rule bit_word_eqI) (auto simp: bit_simps dest: nibble_bits)

lemma hi_nibble: "(u::u8) < 16 \<Longrightarrow> (t :: u8) < 16 \<Longrightarrow> drop_bit 4 (push_bit 4 t OR u) = t"
  by (rule bit_word_eqI) (auto simp: bit_simps dest: nibble_bits)

lemma covers:
  assumes "(t :: u8) < 16" and "push_bit 4 t AND m = push_bit 4 t"
  shows "drop_bit 4 m AND t = t"
proof -
  have t: "drop_bit 4 (push_bit 4 t) = t"
    using hi_nibble [of 0 t] assms(1) by simp
  have "drop_bit 4 (push_bit 4 t AND m) = drop_bit 4 (push_bit 4 t)"
    using assms(2) by simp
  then show ?thesis
    by (simp add: t and.commute)
qed

lemma mask_cover:
  "(t::u8) < 2 ^ n \<Longrightarrow> push_bit 4 t AND push_bit 4 (mask n) = push_bit 4 t"
  by (rule bit_word_eqI) (auto simp: bit_simps dest: small_bits)

subsection \<open>The BCD codec\<close>

text \<open>
  Both conversions, computed on \<open>int\<close> as C does, agree with the same expressions on
  the byte.
\<close>

lemma uint_u8_mod: "uint (w::u8) mod 256 = uint w"
  using uint_bounded [of w] uint_nonnegative [of w] by simp

lemma uint_drop_bit_u8: "uint (drop_bit n (w::u8)) = drop_bit n (uint w)"
  by (simp add: unsigned_drop_bit_eq take_bit_eq_mod uint_u8_mod)

lemma tobcd_word: "mcp7940_tobcd v = push_bit 4 (v div 10) OR (v mod 10)"
proof -
  have d: "(word_of_int (uint v div 10) :: u8) = v div 10"
    by (simp add: word_div_def)
  have m: "(word_of_int (uint v mod 10) :: u8) = v mod 10"
    by (simp add: word_mod_def)
  show ?thesis
    unfolding mcp7940_tobcd_def
    by (simp only: of_int_or_eq of_int_push_bit d m)
qed

lemma tobinary_word: "mcp7940_tobinary v m = drop_bit 4 (m AND v) * 10 + (0x0F AND v)"
proof -
  have "(word_of_int (drop_bit 4 (uint (m AND v))) :: u8) = drop_bit 4 (m AND v)"
    by (metis uint_drop_bit_u8 word_of_int_uint)
  then show ?thesis
    unfolding mcp7940_tobinary_def
    by simp
qed

lemma tens: "(v::u8) < 160 \<Longrightarrow> v div 10 < 16"
  by (simp add: word_less_nat_alt unat_div)

lemma units: "(v::u8) mod 10 < 16"
proof -
  have "unat v mod 10 < 16" by (rule less_trans [of _ 10]) simp_all
  then show ?thesis by (simp add: word_less_nat_alt unat_mod)
qed

text \<open>
  The round trip holds up to 159, where the tens digit still fits the high nibble; from
  160 on the encoded byte has lost the top of the tens digit.
\<close>

lemma roundtrip:
  assumes "(v::u8) < 160" and "push_bit 4 (v div 10) AND m = push_bit 4 (v div 10)"
  shows "mcp7940_tobinary (mcp7940_tobcd v) m = v"
proof -
  let ?t = "v div 10" and ?u = "v mod 10"
  have t: "?t < 16" using assms(1) by (rule tens)
  have u: "?u < 16" by (rule units)
  have "drop_bit 4 (m AND (push_bit 4 ?t OR ?u)) = drop_bit 4 m AND drop_bit 4 (push_bit 4 ?t OR ?u)"
    by (rule drop_bit_and)
  also have "\<dots> = drop_bit 4 m AND ?t"
    by (simp only: hi_nibble [OF u t])
  also have "\<dots> = ?t"
    using t assms(2) by (rule covers)
  finally have hi: "drop_bit 4 (m AND (push_bit 4 ?t OR ?u)) = ?t" .
  have lo: "0x0F AND (push_bit 4 ?t OR ?u) = ?u"
    using u by (rule low_nibble)
  show ?thesis
    by (simp only: tobinary_word tobcd_word hi lo word_mod_div_equality)
qed

lemma tens_width:
  fixes v :: u8
  shows "v \<le> 59 \<Longrightarrow> v div 10 < 2 ^ 3"
    and "v \<le> 23 \<Longrightarrow> v div 10 < 2 ^ 2"
    and "v \<le> 31 \<Longrightarrow> v div 10 < 2 ^ 2"
    and "v \<le> 12 \<Longrightarrow> v div 10 < 2 ^ 1"
    and "v \<le> 99 \<Longrightarrow> v div 10 < 2 ^ 4"
  by (simp_all add: word_less_nat_alt word_le_nat_alt unat_div)

lemma tens_masks:
  "MCP7940_SECTEN_bm = push_bit 4 (mask 3)"
  "MCP7940_MINTEN_bm = push_bit 4 (mask 3)"
  "MCP7940_HRTEN_bm = push_bit 4 (mask 2)"
  "MCP7940_DATETEN_bm = push_bit 4 (mask 2)"
  "MCP7940_MTHTEN_bm = push_bit 4 (mask 1)"
  "MCP7940_YRTEN_bm = push_bit 4 (mask 4)"
  by (simp_all add: MCP7940_register_map mask_eq_exp_minus_1)

lemma legal_below_160: "(v::u8) \<le> 99 \<Longrightarrow> v < 160"
  by (simp add: word_less_nat_alt word_le_nat_alt)

text \<open>
  Claim C1. For every magnitude in the legal range of a BCD field, decoding the encoded
  byte with the field's tens mask gives the magnitude back. The first conjunct is the
  general statement: the magnitude is at most 99 and the mask contains the bits the tens
  digit occupies in the encoded byte. The other conjuncts are the six fields with the
  masks of the header: seconds and minutes 0..59, hours 0..23, day 1..31, month 1..12,
  year 0..99.
\<close>

theorem bcd_round_trip:
  "(v \<le> 99 \<and> push_bit 4 (v div 10) AND m = push_bit 4 (v div 10) \<longrightarrow>
      mcp7940_tobinary (mcp7940_tobcd v) m = v) \<and>
   (v \<le> 59 \<longrightarrow> mcp7940_tobinary (mcp7940_tobcd v) MCP7940_SECTEN_bm = v) \<and>
   (v \<le> 59 \<longrightarrow> mcp7940_tobinary (mcp7940_tobcd v) MCP7940_MINTEN_bm = v) \<and>
   (v \<le> 23 \<longrightarrow> mcp7940_tobinary (mcp7940_tobcd v) MCP7940_HRTEN_bm = v) \<and>
   (1 \<le> v \<and> v \<le> 31 \<longrightarrow> mcp7940_tobinary (mcp7940_tobcd v) MCP7940_DATETEN_bm = v) \<and>
   (1 \<le> v \<and> v \<le> 12 \<longrightarrow> mcp7940_tobinary (mcp7940_tobcd v) MCP7940_MTHTEN_bm = v) \<and>
   (v \<le> 99 \<longrightarrow> mcp7940_tobinary (mcp7940_tobcd v) MCP7940_YRTEN_bm = v)"
proof (intro conjI impI)
  assume "v \<le> 99 \<and> push_bit 4 (v div 10) AND m = push_bit 4 (v div 10)"
  then show "mcp7940_tobinary (mcp7940_tobcd v) m = v"
    by (simp add: roundtrip legal_below_160)
next
  assume a: "v \<le> 59"
  then have "v \<le> 99" by (simp add: word_le_nat_alt)
  then show "mcp7940_tobinary (mcp7940_tobcd v) MCP7940_SECTEN_bm = v"
    unfolding tens_masks
    by (intro roundtrip legal_below_160 mask_cover tens_width(1) a)
next
  assume a: "v \<le> 59"
  then have "v \<le> 99" by (simp add: word_le_nat_alt)
  then show "mcp7940_tobinary (mcp7940_tobcd v) MCP7940_MINTEN_bm = v"
    unfolding tens_masks
    by (intro roundtrip legal_below_160 mask_cover tens_width(1) a)
next
  assume a: "v \<le> 23"
  then have "v \<le> 99" by (simp add: word_le_nat_alt)
  then show "mcp7940_tobinary (mcp7940_tobcd v) MCP7940_HRTEN_bm = v"
    unfolding tens_masks
    by (intro roundtrip legal_below_160 mask_cover tens_width(2) a)
next
  assume "1 \<le> v \<and> v \<le> 31"
  then have a: "v \<le> 31" ..
  then have "v \<le> 99" by (simp add: word_le_nat_alt)
  then show "mcp7940_tobinary (mcp7940_tobcd v) MCP7940_DATETEN_bm = v"
    unfolding tens_masks
    by (intro roundtrip legal_below_160 mask_cover tens_width(3) a)
next
  assume "1 \<le> v \<and> v \<le> 12"
  then have a: "v \<le> 12" ..
  then have "v \<le> 99" by (simp add: word_le_nat_alt)
  then show "mcp7940_tobinary (mcp7940_tobcd v) MCP7940_MTHTEN_bm = v"
    unfolding tens_masks
    by (intro roundtrip legal_below_160 mask_cover tens_width(4) a)
next
  assume a: "v \<le> 99"
  then show "mcp7940_tobinary (mcp7940_tobcd v) MCP7940_YRTEN_bm = v"
    unfolding tens_masks
    by (intro roundtrip legal_below_160 mask_cover tens_width(5) a)
qed

text \<open>The magnitude 12 is legal for every field; its tens digit needs mask bit 4 only.\<close>

theorem bcd_round_trip_witness:
  "(12::u8) \<le> 99 \<and> push_bit 4 (12 div 10) AND 0x10 = (push_bit 4 (12 div 10) :: u8) \<and>
   (12::u8) \<le> 59 \<and> (12::u8) \<le> 23 \<and> (1::u8) \<le> 12 \<and> (12::u8) \<le> 31 \<and> (12::u8) \<le> 12 \<and>
   mcp7940_tobinary (mcp7940_tobcd 12) 0x10 = 12 \<and>
   mcp7940_tobinary (mcp7940_tobcd 12) MCP7940_SECTEN_bm = 12 \<and>
   mcp7940_tobinary (mcp7940_tobcd 12) MCP7940_MINTEN_bm = 12 \<and>
   mcp7940_tobinary (mcp7940_tobcd 12) MCP7940_HRTEN_bm = 12 \<and>
   mcp7940_tobinary (mcp7940_tobcd 12) MCP7940_DATETEN_bm = 12 \<and>
   mcp7940_tobinary (mcp7940_tobcd 12) MCP7940_MTHTEN_bm = 12 \<and>
   mcp7940_tobinary (mcp7940_tobcd 12) MCP7940_YRTEN_bm = 12"
  using bcd_round_trip [of 12 "0x10"] by simp

subsection \<open>Rejected time and date\<close>

text \<open>
  Claim C2. When \<^verbatim>\<open>validate_time\<close> rejects the time,
  \<^verbatim>\<open>mcp7940_settime\<close> returns \<^verbatim>\<open>MCP7940_Error_Fail\<close> and the bus
  history is the one it was called with: no transaction was issued, so the device saw
  nothing; the simulated chip, whatever it held, holds the same registers. The same for
  \<^verbatim>\<open>mcp7940_setdate\<close> and \<^verbatim>\<open>validate_date\<close>. This holds for
  every validator, device and build.
\<close>

theorem rejected_write_touches_nothing:
  "(validate_time t \<noteq> RETURN_Valid \<longrightarrow>
      mcp7940_settime use_extosc dev validate_time t s = (MCP7940_Error_Fail, s) \<and>
      registers_after init (snd (mcp7940_settime use_extosc dev validate_time t s)) =
        registers_after init s) \<and>
   (validate_date d \<noteq> RETURN_Valid \<longrightarrow>
      mcp7940_setdate validate_date d s = (MCP7940_Error_Fail, s) \<and>
      registers_after init (snd (mcp7940_setdate validate_date d s)) =
        registers_after init s)"
  by (simp add: mcp7940_settime_def mcp7940_setdate_def)

text \<open>Hour 24 and month 13 are rejected by the range validators.\<close>

theorem rejected_write_touches_nothing_witness:
  "validate_time_range \<lparr>hour = 24, minute = 0, second = 0\<rparr> \<noteq> RETURN_Valid \<and>
   mcp7940_settime False absent_device validate_time_range
     \<lparr>hour = 24, minute = 0, second = 0\<rparr> [] = (MCP7940_Error_Fail, []) \<and>
   validate_date_range \<lparr>day = 1, month = 13, year = 0\<rparr> \<noteq> RETURN_Valid \<and>
   mcp7940_setdate validate_date_range \<lparr>day = 1, month = 13, year = 0\<rparr> [] =
     (MCP7940_Error_Fail, [])"
  using rejected_write_touches_nothing
    [of validate_time_range "\<lparr>hour = 24, minute = 0, second = 0\<rparr>" False absent_device "[]"
        blank_registers validate_date_range "\<lparr>day = 1, month = 13, year = 0\<rparr>"]
  by (simp add: validate_time_range_def validate_date_range_def)

subsection \<open>Oscillator trim\<close>

lemma seven_bit_magnitude:
  assumes "(v::u8) \<le> 127" shows "v AND 0x7F = v"
proof -
  have "v < 2 ^ 7" using assms by (simp add: word_less_nat_alt word_le_nat_alt)
  then have "take_bit 7 v = v" by (simp add: take_bit_eq_mod mod_word_less)
  moreover have "(0x7F::u8) = mask 7" by (simp add: mask_eq_exp_minus_1)
  ultimately show ?thesis by (simp add: take_bit_eq_mask)
qed

lemma trimming_trace:
  "mcp7940_trimming dev mode v s =
     (let b = (if mode = MCP7940_Trim_Add then (v AND 0x7F) OR 0x80 else v AND 0x7F)
      in (if dev (s @ write_frame MCP7940_OSCTRIM b @ read_request MCP7940_OSCTRIM) = b
          then MCP7940_Error_None else MCP7940_Error_Fail,
          s @ write_frame MCP7940_OSCTRIM b @ read_frame MCP7940_OSCTRIM))"
  by (simp add: mcp7940_trimming_def mcp7940_write_trace mcp7940_read_trace Let_def)

lemma bit7_clear: "\<not> bit ((v::u8) AND 0x7F) 7"
proof -
  have "(0x7F::u8) = mask 7" by (simp add: mask_eq_exp_minus_1)
  then show ?thesis by (simp add: bit_simps)
qed

lemma bit7_set: "bit (((v::u8) AND 0x7F) OR 0x80) 7"
proof -
  have "(0x80::u8) = push_bit 7 1" by simp
  then show ?thesis by (simp only: bit_or_iff) (simp add: bit_simps)
qed

text \<open>
  Claim C3. For a magnitude of at most 127, \<^verbatim>\<open>mcp7940_trimming\<close> with
  direction Add writes \<open>0x80 OR v\<close> to the trim register and with direction Subtract
  writes \<open>v\<close>, whose bit 7 is clear. After the call the bus history is the old one
  followed by that one write frame and one read frame of the trim register, and nothing
  else: one readback, no second write. The result is \<^verbatim>\<open>MCP7940_Error_None\<close>
  when the byte the device answers equals the written byte and
  \<^verbatim>\<open>MCP7940_Error_Fail\<close> otherwise.
\<close>

theorem trimming_write_then_verify:
  "v \<le> 127 \<Longrightarrow>
     mcp7940_trimming dev MCP7940_Trim_Add v s =
       (if dev (s @ write_frame MCP7940_OSCTRIM (0x80 OR v) @ read_request MCP7940_OSCTRIM)
             = (0x80 OR v)
        then MCP7940_Error_None else MCP7940_Error_Fail,
        s @ write_frame MCP7940_OSCTRIM (0x80 OR v) @ read_frame MCP7940_OSCTRIM) \<and>
     mcp7940_trimming dev MCP7940_Trim_Substract v s =
       (if dev (s @ write_frame MCP7940_OSCTRIM v @ read_request MCP7940_OSCTRIM) = v
        then MCP7940_Error_None else MCP7940_Error_Fail,
        s @ write_frame MCP7940_OSCTRIM v @ read_frame MCP7940_OSCTRIM) \<and>
     \<not> bit v 7"
proof -
  assume "v \<le> 127"
  then have m: "v AND 0x7F = v" by (rule seven_bit_magnitude)
  have clear: "\<not> bit v 7" using bit7_clear [of v] by (simp add: m)
  show ?thesis
    by (simp add: trimming_trace m or.commute clear)
qed

text \<open>
  Magnitude 5: the simulated chip returns the byte it was given, the absent device
  returns \<open>0xFF\<close> and the verification fails, with the same two frames on the bus.
\<close>

theorem trimming_write_then_verify_witness:
  "(5::u8) \<le> 127 \<and>
   mcp7940_trimming (simulated_device blank_registers) MCP7940_Trim_Add 5 [] =
     (MCP7940_Error_None, write_frame MCP7940_OSCTRIM 0x85 @ read_frame MCP7940_OSCTRIM) \<and>
   mcp7940_trimming absent_device MCP7940_Trim_Add 5 [] =
     (MCP7940_Error_Fail, write_frame MCP7940_OSCTRIM 0x85 @ read_frame MCP7940_OSCTRIM) \<and>
   mcp7940_trimming (simulated_device blank_registers) MCP7940_Trim_Substract 5 [] =
     (MCP7940_Error_None, write_frame MCP7940_OSCTRIM 0x05 @ read_frame MCP7940_OSCTRIM) \<and>
   mcp7940_trimming absent_device MCP7940_Trim_Substract 5 [] =
     (MCP7940_Error_Fail, write_frame MCP7940_OSCTRIM 0x05 @ read_frame MCP7940_OSCTRIM)"
  using trimming_write_then_verify [of 5 "simulated_device blank_registers" "[]"]
        trimming_write_then_verify [of 5 absent_device "[]"]
        simulated_read [of blank_registers "write_frame MCP7940_OSCTRIM 0x85" MCP7940_OSCTRIM]
        simulated_read [of blank_registers "write_frame MCP7940_OSCTRIM 0x05" MCP7940_OSCTRIM]
        registers_after_write [of blank_registers "[]" MCP7940_OSCTRIM]
  by (simp add: absent_device_def registers_after_Nil)

text \<open>
  Claim C7 says that with magnitude 0 the written byte is \<open>0x00\<close> for both
  directions. With direction Add the source sets bit 7 after masking the magnitude,
  whatever the magnitude is, and writes \<open>0x80\<close>.
\<close>

theorem trimming_zero_add_counterexample:
  "snd (mcp7940_trimming absent_device MCP7940_Trim_Add 0 []) =
     write_frame MCP7940_OSCTRIM 0x80 @ read_frame MCP7940_OSCTRIM \<and>
   snd (mcp7940_trimming absent_device MCP7940_Trim_Add 0 []) \<noteq>
     write_frame MCP7940_OSCTRIM 0x00 @ read_frame MCP7940_OSCTRIM"
  by (simp add: trimming_trace write_frame_def)

text \<open>
  Claim C7, amended. Bit 7 of the written trim byte follows the direction alone: it is
  set for Add and clear for Subtract, for every magnitude. With magnitude 0, Subtract
  writes \<open>0x00\<close> and Add writes \<open>0x80\<close>.
\<close>

theorem trimming_sign_follows_mode:
  "snd (mcp7940_trimming dev MCP7940_Trim_Substract 0 s) =
     s @ write_frame MCP7940_OSCTRIM 0x00 @ read_frame MCP7940_OSCTRIM \<and>
   snd (mcp7940_trimming dev MCP7940_Trim_Add 0 s) =
     s @ write_frame MCP7940_OSCTRIM 0x80 @ read_frame MCP7940_OSCTRIM \<and>
   snd (mcp7940_trimming dev MCP7940_Trim_Substract v s) =
     s @ write_frame MCP7940_OSCTRIM (v AND 0x7F) @ read_frame MCP7940_OSCTRIM \<and>
   snd (mcp7940_trimming dev MCP7940_Trim_Add v s) =
     s @ write_frame MCP7940_OSCTRIM ((v AND 0x7F) OR 0x80) @ read_frame MCP7940_OSCTRIM \<and>
   \<not> bit (v AND 0x7F) 7 \<and> bit ((v AND 0x7F) OR 0x80) 7"
  using bit7_clear [of v] bit7_set [of v]
  by (simp add: trimming_trace Let_def)

subsection \<open>Programming the weekday\<close>

lemma weekday_device_value:
  assumes "(w::u8) < 7"
  shows "(word_of_int (0x07 AND (uint w + 1)) :: u8) = w + 1"
proof -
  have "w + 1 < 2 ^ 3" using assms by (simp add: word_less_nat_alt unat_word_ariths)
  then have "take_bit 3 (w + 1) = w + 1" by (simp add: take_bit_eq_mod mod_word_less)
  then have "7 AND (w + 1) = w + 1" by (simp add: seven_mask take_bit_eq_mask and.commute)
  moreover have "(word_of_int (0x07 AND (uint w + 1)) :: u8) = 7 AND (w + 1)"
    by (simp add: of_int_and_eq)
  ultimately show ?thesis by simp
qed

lemma weekday_byte:
  assumes "(w::u8) < 7"
  shows "(word_of_int (uint (0xF8 AND temp) OR (0x07 AND (uint w + 1))) :: u8) = (0xF8 AND temp) OR (w + 1)"
  by (simp only: of_int_or_eq word_of_int_uint weekday_device_value [OF assms])

lemma merge_low:
  assumes "(x::u8) < 2 ^ 3" shows "0x07 AND ((0xF8 AND temp) OR x) = x"
proof -
  have b: "\<And>k. bit x k \<Longrightarrow> k < 3" using assms by (rule small_bits)
  show ?thesis
    unfolding seven_mask f8_mask
    by (intro bit_word_eqI) (auto simp: bit_simps dest: b)
qed

lemma merge_high:
  assumes "(x::u8) < 2 ^ 3" shows "0xF8 AND ((0xF8 AND temp) OR x) = 0xF8 AND temp"
proof -
  have b: "\<And>k. bit x k \<Longrightarrow> k < 3" using assms by (rule small_bits)
  show ?thesis
    unfolding seven_mask f8_mask
    by (intro bit_word_eqI) (auto simp: bit_simps dest: b)
qed

lemma flag_kept:
  assumes "(f::u8) AND 0xF8 = f" and "0xF8 AND b = 0xF8 AND temp"
  shows "f AND b = f AND temp"
proof -
  have "f AND b = f AND (0xF8 AND b)" using assms(1) by (metis and.assoc)
  also have "\<dots> = f AND (0xF8 AND temp)" by (simp only: assms(2))
  also have "\<dots> = f AND temp" using assms(1) by (metis and.assoc)
  finally show ?thesis .
qed

text \<open>
  Claim C4. For a weekday index of 0 to 6, \<^verbatim>\<open>mcp7940_setweekday\<close> returns
  \<^verbatim>\<open>MCP7940_Error_None\<close>; it reads the weekday register once and writes it
  once, and in the written byte the low three bits are the index plus one while the
  upper five bits, among them the battery, power-fail and oscillator-running flags, are
  those of the byte read. For an index of 7 or more it returns
  \<^verbatim>\<open>MCP7940_Error_Fail\<close> and the bus history is unchanged.
\<close>

theorem setweekday_programs_device_value:
  "(w \<le> 6 \<longrightarrow>
      mcp7940_setweekday dev w s =
        (MCP7940_Error_None,
         s @ read_frame MCP7940_RTCWKDAY @
           write_frame MCP7940_RTCWKDAY
             ((0xF8 AND dev (s @ read_request MCP7940_RTCWKDAY)) OR (w + 1))) \<and>
      0x07 AND ((0xF8 AND dev (s @ read_request MCP7940_RTCWKDAY)) OR (w + 1)) = w + 1 \<and>
      0xF8 AND ((0xF8 AND dev (s @ read_request MCP7940_RTCWKDAY)) OR (w + 1)) =
        0xF8 AND dev (s @ read_request MCP7940_RTCWKDAY) \<and>
      MCP7940_VBATEN_bm AND ((0xF8 AND dev (s @ read_request MCP7940_RTCWKDAY)) OR (w + 1)) =
        MCP7940_VBATEN_bm AND dev (s @ read_request MCP7940_RTCWKDAY) \<and>
      MCP7940_PWRFAIL_bm AND ((0xF8 AND dev (s @ read_request MCP7940_RTCWKDAY)) OR (w + 1)) =
        MCP7940_PWRFAIL_bm AND dev (s @ read_request MCP7940_RTCWKDAY) \<and>
      MCP7940_OSCRUN_bm AND ((0xF8 AND dev (s @ read_request MCP7940_RTCWKDAY)) OR (w + 1)) =
        MCP7940_OSCRUN_bm AND dev (s @ read_request MCP7940_RTCWKDAY)) \<and>
   (7 \<le> w \<longrightarrow> mcp7940_setweekday dev w s = (MCP7940_Error_Fail, s))"
proof (intro conjI impI)
  let ?temp = "dev (s @ read_request MCP7940_RTCWKDAY)"
  let ?b = "(0xF8 AND ?temp) OR (w + 1)"
  assume "w \<le> 6"
  then have w: "w < 7" by (simp add: word_less_nat_alt word_le_nat_alt)
  then have n: "\<not> 7 \<le> w" by (simp add: not_le)
  have x: "w + 1 < 2 ^ 3" using w by (simp add: word_less_nat_alt unat_word_ariths)
  show "mcp7940_setweekday dev w s =
        (MCP7940_Error_None,
         s @ read_frame MCP7940_RTCWKDAY @ write_frame MCP7940_RTCWKDAY ?b)"
    by (simp add: mcp7940_setweekday_def n mcp7940_read_trace mcp7940_write_trace
        weekday_byte [OF w])
  show "0x07 AND ?b = w + 1"
    using x by (rule merge_low)
  show high: "0xF8 AND ?b = 0xF8 AND ?temp"
    using x by (rule merge_high)
  show "MCP7940_VBATEN_bm AND ?b = MCP7940_VBATEN_bm AND ?temp"
    by (rule flag_kept [OF _ high]) (simp add: MCP7940_VBATEN_bm_def)
  show "MCP7940_PWRFAIL_bm AND ?b = MCP7940_PWRFAIL_bm AND ?temp"
    by (rule flag_kept [OF _ high]) (simp add: MCP7940_PWRFAIL_bm_def)
  show "MCP7940_OSCRUN_bm AND ?b = MCP7940_OSCRUN_bm AND ?temp"
    by (rule flag_kept [OF _ high]) (simp add: MCP7940_OSCRUN_bm_def)
next
  assume "7 \<le> w"
  then show "mcp7940_setweekday dev w s = (MCP7940_Error_Fail, s)"
    by (simp add: mcp7940_setweekday_def)
qed

text \<open>
  Index 6 on a register holding \<open>0x2B\<close> (oscillator running, battery enabled,
  weekday 3) writes \<open>0x2F\<close>; index 7 is refused.
\<close>

theorem setweekday_programs_device_value_witness:
  "(6::u8) \<le> 6 \<and>
   mcp7940_setweekday (simulated_device (blank_registers(MCP7940_RTCWKDAY := 0x2B))) 6 [] =
     (MCP7940_Error_None,
      read_frame MCP7940_RTCWKDAY @ write_frame MCP7940_RTCWKDAY 0x2F) \<and>
   (7::u8) \<le> 7 \<and>
   mcp7940_setweekday (simulated_device (blank_registers(MCP7940_RTCWKDAY := 0x2B))) 7 [] =
     (MCP7940_Error_Fail, [])"
  using setweekday_programs_device_value
          [of 6 "simulated_device (blank_registers(MCP7940_RTCWKDAY := 0x2B))" "[]"]
        setweekday_programs_device_value
          [of 7 "simulated_device (blank_registers(MCP7940_RTCWKDAY := 0x2B))" "[]"]
        simulated_read [of "blank_registers(MCP7940_RTCWKDAY := 0x2B)" "[]" MCP7940_RTCWKDAY]
  by (simp add: registers_after_Nil)

subsection \<open>Power-fail time stamps\<close>

lemma mcp7940_time_power:
  "reg \<noteq> MCP7940_Register_Current_Time \<Longrightarrow>
   mcp7940_time dev time reg s =
     (let (h, s1) = mcp7940_hour dev reg s; (m, s2) = mcp7940_minute dev reg s1
      in (\<lparr>hour = h, minute = m, second = 0\<rparr>, s2))"
  by (cases time) (simp add: mcp7940_time_def Let_def split: prod.splits)

lemma mcp7940_date_power:
  "reg \<noteq> MCP7940_Register_Current_Time \<Longrightarrow>
   mcp7940_date dev date reg s =
     (let (d, s1) = mcp7940_day dev reg s; (m, s2) = mcp7940_month dev reg s1
      in (\<lparr>day = d, month = m, year = 0\<rparr>, s2))"
  by (cases date) (simp add: mcp7940_date_def Let_def split: prod.splits)

text \<open>
  Claim C5. Whatever the device answers, \<^verbatim>\<open>mcp7940_time\<close> on the power-down
  or the power-up register set stores 0 in \<^verbatim>\<open>time->second\<close>, and
  \<^verbatim>\<open>mcp7940_date\<close> on those sets stores 0 in \<^verbatim>\<open>date->year\<close>.
  Each call puts exactly two read frames on the bus, for hour and minute or for day and
  month; none of them addresses the seconds register or the year register.
\<close>

theorem power_fail_stamps_have_no_second_and_year:
  "second (fst (mcp7940_time dev time MCP7940_Register_Power_Down_Time s)) = 0 \<and>
   second (fst (mcp7940_time dev time MCP7940_Register_Power_Up_Time s)) = 0 \<and>
   year (fst (mcp7940_date dev date MCP7940_Register_Power_Down_Time s)) = 0 \<and>
   year (fst (mcp7940_date dev date MCP7940_Register_Power_Up_Time s)) = 0 \<and>
   snd (mcp7940_time dev time MCP7940_Register_Power_Down_Time s) =
     s @ read_frame MCP7940_PWRDNHOUR @ read_frame MCP7940_PWRDNMIN \<and>
   snd (mcp7940_time dev time MCP7940_Register_Power_Up_Time s) =
     s @ read_frame MCP7940_PWRUPHOUR @ read_frame MCP7940_PWRUPMIN \<and>
   snd (mcp7940_date dev date MCP7940_Register_Power_Down_Time s) =
     s @ read_frame MCP7940_PWRDNDATE @ read_frame MCP7940_PWRDNMTH \<and>
   snd (mcp7940_date dev date MCP7940_Register_Power_Up_Time s) =
     s @ read_frame MCP7940_PWRUPDATE @ read_frame MCP7940_PWRUPMTH \<and>
   Set MCP7940_RTCSEC \<notin> set (read_frame MCP7940_PWRDNHOUR @ read_frame MCP7940_PWRDNMIN) \<and>
   Set MCP7940_RTCSEC \<notin> set (read_frame MCP7940_PWRUPHOUR @ read_frame MCP7940_PWRUPMIN) \<and>
   Set MCP7940_RTCYEAR \<notin> set (read_frame MCP7940_PWRDNDATE @ read_frame MCP7940_PWRDNMTH) \<and>
   Set MCP7940_RTCYEAR \<notin> set (read_frame MCP7940_PWRUPDATE @ read_frame MCP7940_PWRUPMTH)"
proof -
  have frames:
    "Set MCP7940_RTCSEC \<notin> set (read_frame MCP7940_PWRDNHOUR @ read_frame MCP7940_PWRDNMIN)"
    "Set MCP7940_RTCSEC \<notin> set (read_frame MCP7940_PWRUPHOUR @ read_frame MCP7940_PWRUPMIN)"
    "Set MCP7940_RTCYEAR \<notin> set (read_frame MCP7940_PWRDNDATE @ read_frame MCP7940_PWRDNMTH)"
    "Set MCP7940_RTCYEAR \<notin> set (read_frame MCP7940_PWRUPDATE @ read_frame MCP7940_PWRUPMTH)"
    by (simp_all add: read_frame_def read_request_def MCP7940_register_map)
  have calls:
    "second (fst (mcp7940_time dev time MCP7940_Register_Power_Down_Time s)) = 0"
    "second (fst (mcp7940_time dev time MCP7940_Register_Power_Up_Time s)) = 0"
    "year (fst (mcp7940_date dev date MCP7940_Register_Power_Down_Time s)) = 0"
    "year (fst (mcp7940_date dev date MCP7940_Register_Power_Up_Time s)) = 0"
    "snd (mcp7940_time dev time MCP7940_Register_Power_Down_Time s) =
       s @ read_frame MCP7940_PWRDNHOUR @ read_frame MCP7940_PWRDNMIN"
    "snd (mcp7940_time dev time MCP7940_Register_Power_Up_Time s) =
       s @ read_frame MCP7940_PWRUPHOUR @ read_frame MCP7940_PWRUPMIN"
    "snd (mcp7940_date dev date MCP7940_Register_Power_Down_Time s) =
       s @ read_frame MCP7940_PWRDNDATE @ read_frame MCP7940_PWRDNMTH"
    "snd (mcp7940_date dev date MCP7940_Register_Power_Up_Time s) =
       s @ read_frame MCP7940_PWRUPDATE @ read_frame MCP7940_PWRUPMTH"
    by (simp_all add: mcp7940_time_power mcp7940_date_power mcp7940_hour_def
        mcp7940_minute_def mcp7940_day_def mcp7940_month_def mcp7940_data_trace)
  from calls frames show ?thesis by (intro conjI)
qed

text \<open>For contrast, the current-time set does read the seconds register.\<close>

lemma current_time_reads_seconds:
  "snd (mcp7940_time dev time MCP7940_Register_Current_Time s) =
     s @ read_frame MCP7940_RTCHOUR @ read_frame MCP7940_RTCMIN @ read_frame MCP7940_RTCSEC"
  by (simp add: mcp7940_time_def mcp7940_hour_def mcp7940_minute_def mcp7940_second_def
      mcp7940_data_trace Let_def)

subsection \<open>Weekday labels\<close>

lemma weekday_index_mod: "weekday_index d = (uint d - 1) mod 8"
proof -
  have "(7::int) = mask 3" by (simp add: mask_eq_exp_minus_1)
  then have "0x07 AND (uint d - 1) = take_bit 3 (uint d - 1)"
    by (simp add: take_bit_eq_mask and.commute)
  then show ?thesis by (simp add: weekday_index_def take_bit_eq_mod)
qed

lemma weekday_index_range: "0 \<le> weekday_index d \<and> weekday_index d \<le> 7"
proof -
  have "0 \<le> (uint d - 1) mod 8" by simp
  moreover have "(uint d - 1) mod 8 < 8" by simp
  ultimately show ?thesis by (simp add: weekday_index_mod)
qed

lemma weekday_index_nat: "nat (weekday_index d) = (unat d + 7) mod 8"
proof -
  have "(uint d - 1) mod 8 = (uint d - 1 + 8) mod 8" by (simp only: mod_add_self2)
  also have "\<dots> = (uint d + 7) mod 8" by (simp add: add.commute)
  also have "\<dots> = int ((unat d + 7) mod 8)"
    by (simp add: zmod_int)
  finally show ?thesis by (simp only: weekday_index_mod nat_int)
qed

lemma length_weeksdays: "length weeksdays = 8"
  by (simp add: weeksdays_def)

lemma weekday_string_row:
  "mcp7940_weekday_string d = Some (weeksdays ! ((unat d + 7) mod 8))"
proof -
  have "nat (weekday_index d) < 8" by (simp add: weekday_index_nat)
  then show ?thesis
    using weekday_index_range [of d]
    by (simp add: mcp7940_weekday_string_def Let_def length_weeksdays weekday_index_nat)
qed

lemma row_labels:
  assumes "row < 8"
  shows "weeksdays ! row \<in> set weeksdays \<and> length (weeksdays ! row) = 3 \<and>
         (weeksdays ! row = ''???'') = (row = 7)"
proof -
  have "row \<in> {0, 1, 2, 3, 4, 5, 6, 7}" using assms by auto
  then show ?thesis
    by (auto simp: weeksdays_def)
qed

text \<open>
  Claim C10. For every byte the index \<^verbatim>\<open>0x07 & (day - 1)\<close> lies between 0
  and 7, inside the eight rows of \<^verbatim>\<open>weeksdays\<close>: the lookup never leaves the
  table, and the result is one of its rows, three characters followed by the
  terminator in a row of four.
\<close>

theorem weekday_string_index_in_bounds:
  "0 \<le> weekday_index d \<and> weekday_index d \<le> 7 \<and>
   length weeksdays = 8 \<and> nat (weekday_index d) < length weeksdays \<and>
   mcp7940_weekday_string d = Some (weeksdays ! nat (weekday_index d)) \<and>
   mcp7940_weekday_string d \<noteq> None \<and>
   weeksdays ! nat (weekday_index d) \<in> set weeksdays \<and>
   length (weeksdays ! nat (weekday_index d)) = 3"
proof -
  have b: "nat (weekday_index d) < 8" by (simp add: weekday_index_nat)
  show ?thesis
    using weekday_index_range [of d] b row_labels [OF b]
    by (simp add: length_weeksdays weekday_string_row weekday_index_nat)
qed

text \<open>
  Claim C6 says that every value outside 1..7 gives the fallback label. The value 9 is
  outside 1..7 and gives \<^verbatim>\<open>"MON"\<close>: the index is taken modulo 8.
\<close>

theorem weekday_string_wraps_counterexample:
  "\<not> (9::u8) \<le> 7 \<and> mcp7940_weekday_string 9 = Some ''MON'' \<and>
   mcp7940_weekday_string 9 \<noteq> Some ''???''"
  by (simp add: weekday_string_row weeksdays_def)

text \<open>
  Claim C6, amended. The values 1 to 7 give \<^verbatim>\<open>"MON"\<close> to
  \<^verbatim>\<open>"SUN"\<close>, and 0 and 8 give the fallback label \<^verbatim>\<open>"???"\<close>. Every
  other value wraps modulo 8: the label of \<open>d\<close> is row \<open>(d + 7) mod 8\<close>, so the
  fallback label is returned exactly for the multiples of 8, and the lookup never fails.
\<close>

theorem weekday_string_labels:
  "mcp7940_weekday_string 1 = Some ''MON'' \<and>
   mcp7940_weekday_string 2 = Some ''TUE'' \<and>
   mcp7940_weekday_string 3 = Some ''WED'' \<and>
   mcp7940_weekday_string 4 = Some ''THU'' \<and>
   mcp7940_weekday_string 5 = Some ''FRI'' \<and>
   mcp7940_weekday_string 6 = Some ''SAT'' \<and>
   mcp7940_weekday_string 7 = Some ''SUN'' \<and>
   mcp7940_weekday_string 0 = Some ''???'' \<and>
   mcp7940_weekday_string 8 = Some ''???'' \<and>
   mcp7940_weekday_string d = Some (weeksdays ! ((unat d + 7) mod 8)) \<and>
   (mcp7940_weekday_string d = Some ''???'') = (unat d mod 8 = 0)"
proof -
  have fixed:
    "mcp7940_weekday_string 1 = Some ''MON''" "mcp7940_weekday_string 2 = Some ''TUE''"
    "mcp7940_weekday_string 3 = Some ''WED''" "mcp7940_weekday_string 4 = Some ''THU''"
    "mcp7940_weekday_string 5 = Some ''FRI''" "mcp7940_weekday_string 6 = Some ''SAT''"
    "mcp7940_weekday_string 7 = Some ''SUN''" "mcp7940_weekday_string 0 = Some ''???''"
    "mcp7940_weekday_string 8 = Some ''???''"
    by (simp_all add: weekday_string_row weeksdays_def)
  have "(unat d + 7) mod 8 < 8" by simp
  then have "(weeksdays ! ((unat d + 7) mod 8) = ''???'') = ((unat d + 7) mod 8 = 7)"
    using row_labels [of "(unat d + 7) mod 8"] by blast
  also have "\<dots> = (unat d mod 8 = 0)" by presburger
  finally have fb: "(mcp7940_weekday_string d = Some ''???'') = (unat d mod 8 = 0)"
    by (simp add: weekday_string_row)
  from fixed weekday_string_row [of d] fb show ?thesis by (intro conjI)
qed

subsection \<open>Setting the date\<close>

text \<open>
  What the source fixes about an accepted date is the bus traffic: three register writes
  and no read, with the BCD day, month and year as the data bytes. For a month of at most
  12 the byte sent to the month register has bit 5 clear. What the month register holds
  afterwards is decided by the device, which is not part of the source.
\<close>

lemma month_bcd_bit5:
  assumes "(m::u8) \<le> 12" shows "\<not> bit (mcp7940_tobcd m) 5"
proof -
  have t: "m div 10 < 2 ^ 1" using assms by (rule tens_width(4))
  have tb: "\<And>k. bit (m div 10) k \<Longrightarrow> k < 1" using t by (rule small_bits)
  have ub: "\<And>k. bit (m mod 10) k \<Longrightarrow> k < 4" using units by (rule nibble_bits)
  show ?thesis
    by (auto simp: tobcd_word bit_simps dest: tb ub)
qed

lemma mcp7940_setdate_trace:
  assumes "validate_date date = RETURN_Valid"
  shows "mcp7940_setdate validate_date date s =
           (MCP7940_Error_None,
            s @ write_frame MCP7940_RTCDATE (mcp7940_tobcd (day date))
              @ write_frame MCP7940_RTCMTH (mcp7940_tobcd (month date))
              @ write_frame MCP7940_RTCYEAR (mcp7940_tobcd (year date)))"
  using assms by (simp add: mcp7940_setdate_def mcp7940_setdata_trace)

subsection \<open>The leap-year query\<close>

lemma leap_bits_vanish: "drop_bit 5 (0x07 AND (raw::u8)) = 0"
  unfolding seven_mask
  by (intro bit_word_eqI) (auto simp: bit_simps)

text \<open>
  Claim C9. For every device, \<^verbatim>\<open>mcp7940_leapyear\<close> returns
  \<^verbatim>\<open>MCP7940_LeapYear_False\<close>. It reads the register at address
  \<^verbatim>\<open>MCP7940_LPYR_bm\<close>, which is \<open>0x20\<close> and not the month register, and
  shifting \<open>0x07 AND raw\<close> right by \<^verbatim>\<open>MCP7940_LPYR_bp\<close> = 5 gives 0 for
  every byte.
\<close>

theorem leapyear_never_reported:
  "mcp7940_leapyear dev s = (MCP7940_LeapYear_False, s @ read_frame MCP7940_LPYR_bm) \<and>
   fst (mcp7940_leapyear dev s) \<noteq> MCP7940_LeapYear_True \<and>
   MCP7940_LPYR_bm = 0x20 \<and> MCP7940_LPYR_bm \<noteq> MCP7940_RTCMTH \<and>
   uint (drop_bit MCP7940_LPYR_bp (0x07 AND (raw::u8))) = 0"
  by (simp add: mcp7940_leapyear_def mcp7940_read_trace MCP7940_LPYR_bp_def leap_bits_vanish
      MCP7940_LeapYear_False_def MCP7940_LeapYear_True_def MCP7940_LPYR_bm_def MCP7940_RTCMTH_def)

end
